theory Spec2Isabelle
  imports Main
begin

section \<open>Python values, errors and string operations\<close>

text \<open>
  The program is \<^verbatim>\<open>lib/completion.py\<close>, the bridge between an editor and the jedi
  analysis engine. Decoded requests and encoded responses are JSON values; a Python
  \<^verbatim>\<open>dict\<close> is an association list in insertion order, which is the order
  \<^verbatim>\<open>json.dumps\<close> prints. JSON numbers with a fraction are left out.
\<close>

datatype json =
    JNull
  | JBool bool
  | JInt int
  | JStr string
  | JArr "json list"
  | JObj "(string \<times> json) list"

text \<open>
  Every exception of the model is a subclass of Python's \<^verbatim>\<open>Exception\<close>.
  \<open>EngineError\<close> stands for any other exception the engine raises.
\<close>

datatype error =
    JSONDecodeError
  | KeyError
  | TypeError
  | AttributeError
  | RecursionError
  | EngineError string

text \<open>Python truthiness of a decoded JSON value.\<close>

fun truthy :: "json \<Rightarrow> bool" where
  "truthy JNull = False"
| "truthy (JBool b) = b"
| "truthy (JInt n) = (n \<noteq> 0)"
| "truthy (JStr s) = (s \<noteq> [])"
| "truthy (JArr xs) = (xs \<noteq> [])"
| "truthy (JObj kv) = (kv \<noteq> [])"

text \<open>\<^verbatim>\<open>d.get(k, dflt)\<close> and \<^verbatim>\<open>d[k]\<close> on a dict given by its items.\<close>

definition get :: "(string \<times> json) list \<Rightarrow> string \<Rightarrow> json \<Rightarrow> json" where
  "get kv k dflt = (case map_of kv k of None \<Rightarrow> dflt | Some v \<Rightarrow> v)"

definition item :: "(string \<times> json) list \<Rightarrow> string \<Rightarrow> error + json" where
  "item kv k = (case map_of kv k of None \<Rightarrow> Inl KeyError | Some v \<Rightarrow> Inr v)"

text \<open>
  \<^verbatim>\<open>for x in v\<close>: a list gives its elements, a string its characters, a dict its
  keys; anything else is not iterable (TypeError, here \<open>None\<close>).
\<close>

fun py_iter :: "json \<Rightarrow> json list option" where
  "py_iter (JArr xs) = Some xs"
| "py_iter (JStr s) = Some (map (\<lambda>c. JStr [c]) s)"
| "py_iter (JObj kv) = Some (map (\<lambda>p. JStr (fst p)) kv)"
| "py_iter _ = None"

text \<open>\<^verbatim>\<open>v in xs\<close> for a list of strings \<open>xs\<close>: only a string can be equal to a member.\<close>

fun py_in :: "json \<Rightarrow> string list \<Rightarrow> bool" where
  "py_in (JStr s) xs = (s \<in> set xs)"
| "py_in _ xs = False"

text \<open>
  String operations, on ASCII: \<^verbatim>\<open>str.lower\<close>, \<^verbatim>\<open>str.isupper\<close>, \<^verbatim>\<open>str.strip\<close>,
  \<^verbatim>\<open>str.split(sep)\<close>, \<^verbatim>\<open>sep.join\<close>, \<^verbatim>\<open>str.startswith\<close>, \<^verbatim>\<open>str(i)\<close>.
\<close>

definition is_upper :: "char \<Rightarrow> bool" where
  "is_upper c = (65 \<le> (of_char c :: nat) \<and> (of_char c :: nat) \<le> 90)"

definition is_lower :: "char \<Rightarrow> bool" where
  "is_lower c = (97 \<le> (of_char c :: nat) \<and> (of_char c :: nat) \<le> 122)"

definition is_digit :: "char \<Rightarrow> bool" where
  "is_digit c = (48 \<le> (of_char c :: nat) \<and> (of_char c :: nat) \<le> 57)"

definition is_space :: "char \<Rightarrow> bool" where
  "is_space c = ((of_char c :: nat) = 32 \<or> (9 \<le> (of_char c :: nat) \<and> (of_char c :: nat) \<le> 13)
     \<or> (28 \<le> (of_char c :: nat) \<and> (of_char c :: nat) \<le> 31))"

definition lower_char :: "char \<Rightarrow> char" where
  "lower_char c = (if is_upper c then char_of ((of_char c :: nat) + 32) else c)"

definition lower :: "string \<Rightarrow> string" where
  "lower s = map lower_char s"

text \<open>\<^verbatim>\<open>s.isupper()\<close>: some cased character, and no lowercase one.\<close>

definition isupper :: "string \<Rightarrow> bool" where
  "isupper s = (list_ex is_upper s \<and> \<not> list_ex is_lower s)"

definition strip :: "string \<Rightarrow> string" where
  "strip s = rev (dropWhile is_space (rev (dropWhile is_space s)))"

definition startswith :: "string \<Rightarrow> string \<Rightarrow> bool" where
  "startswith s p = (take (length p) s = p)"

fun py_split :: "char \<Rightarrow> string \<Rightarrow> string list" where
  "py_split sep [] = [[]]"
| "py_split sep (x # xs) =
     (if x = sep then [] # py_split sep xs
      else (case py_split sep xs of
              [] \<Rightarrow> [[x]]
            | p # ps \<Rightarrow> (x # p) # ps))"

fun join :: "string \<Rightarrow> string list \<Rightarrow> string" where
  "join sep [] = []"
| "join sep [x] = x"
| "join sep (x # y # ys) = x @ sep @ join sep (y # ys)"

definition digit_char :: "nat \<Rightarrow> char" where
  "digit_char d = char_of (48 + d)"

fun str_nat :: "nat \<Rightarrow> string" where
  "str_nat n = (if n < 10 then [digit_char n] else str_nat (n div 10) @ [digit_char (n mod 10)])"

declare str_nat.simps [simp del]

text \<open>\<^verbatim>\<open>re.sub('param ', '', s)\<close>: every occurrence is removed, left to right.\<close>

fun sub_param :: "string \<Rightarrow> string" where
  "sub_param [] = []"
| "sub_param (x # xs) =
     (if take 6 (x # xs) = ''param '' then sub_param (drop 5 xs) else x # sub_param xs)"

text \<open>
  \<^verbatim>\<open>WORD_RE = re.compile(r'\w')\<close> and
  \<^verbatim>\<open>ARGUMENT_RE = re.compile(r'[a-zA-Z0-9_=\*"\']+')\<close>; \<^verbatim>\<open>match\<close> anchors at the
  start of the string, so both ask for a first character of the class.
\<close>

definition is_word_char :: "char \<Rightarrow> bool" where
  "is_word_char c = (is_upper c \<or> is_lower c \<or> is_digit c \<or> c = CHR ''_'')"

definition WORD_RE_match :: "string \<Rightarrow> bool" where
  "WORD_RE_match s = (case s of [] \<Rightarrow> False | c # _ \<Rightarrow> is_word_char c)"

definition ARGUMENT_RE_match :: "string \<Rightarrow> bool" where
  "ARGUMENT_RE_match s =
     (case s of [] \<Rightarrow> False
      | c # _ \<Rightarrow> is_word_char c \<or> c = CHR ''='' \<or> c = CHR ''*'' \<or> c = CHR 0x22 \<or> c = CHR 0x27)"

section \<open>Candidates of the analysis engine\<close>

text \<open>
  The attributes the bridge reads from a jedi object (a completion, a definition, a
  usage, a signature). \<open>None\<close> in \<open>c_params\<close> and \<open>c_definition\<close> is an object
  without the attribute (\<^verbatim>\<open>hasattr\<close> is false) or whose \<^verbatim>\<open>_definition\<close> is
  \<^verbatim>\<open>None\<close>; \<open>c_parent\<close> is the name and the type of \<^verbatim>\<open>parent()\<close>, \<open>None\<close> when
  there is no parent; \<open>c_definition\<close> lists the children of the definition node, each
  with the name of its class and its code. Parameter objects are truthy.
\<close>

record param =
  p_name :: string
  p_description :: string

record cand =
  c_name :: string
  c_type :: string
  c_in_builtin_module :: bool
  c_module_path :: "string option"
  c_module_name :: string
  c_line :: "int option"
  c_column :: "int option"
  c_docstring :: "string option"
  c_params :: "param list option"
  c_parent :: "(string \<times> string) option"
  c_definition :: "(string \<times> string) list option"

definition json_str_opt :: "string option \<Rightarrow> json" where
  "json_str_opt s = (case s of None \<Rightarrow> JNull | Some v \<Rightarrow> JStr v)"

definition json_int_opt :: "int option \<Rightarrow> json" where
  "json_int_opt n = (case n of None \<Rightarrow> JNull | Some v \<Rightarrow> JInt v)"

text \<open>\<^verbatim>\<open>if definition.module_path\<close>: neither \<^verbatim>\<open>None\<close> nor empty.\<close>

definition has_module_path :: "cand \<Rightarrow> bool" where
  "has_module_path d = (case c_module_path d of None \<Rightarrow> False | Some p \<Rightarrow> p \<noteq> [])"

subsection \<open>Kind classification\<close>

definition basic_types :: "(string \<times> string) list" where
  "basic_types =
     [(''module'', ''import''),
      (''instance'', ''variable''),
      (''statement'', ''value''),
      (''param'', ''variable'')]"

definition get_definition_type :: "cand \<Rightarrow> string" where
  "get_definition_type definition =
     (if c_type definition \<notin> set [''import'', ''keyword''] \<and> c_in_builtin_module definition
      then ''builtin''
      else if c_type definition \<in> set [''statement''] \<and> isupper (c_name definition)
      then ''constant''
      else (case map_of basic_types (c_type definition) of
              None \<Rightarrow> c_type definition
            | Some t \<Rightarrow> t))"

subsection \<open>Description rendering\<close>

definition additional_info :: "cand \<Rightarrow> string" where
  "additional_info completion =
     (case c_definition completion of
        None \<Rightarrow> []
      | Some children \<Rightarrow>
          if c_type completion = ''statement''
          then filter (\<lambda>ch. ch \<noteq> CHR 0x0A)
                 (concat (map snd (filter (\<lambda>c. fst c \<in> set [''InstanceElement'', ''String'',
                    ''Node'', ''Lambda'', ''Number'']) children)))
          else [])"

definition generate_signature :: "cand \<Rightarrow> string" where
  "generate_signature completion =
     (case c_params completion of
        None \<Rightarrow> []
      | Some ps \<Rightarrow>
          if c_type completion \<in> set [''module''] then []
          else c_name completion @ ''('' @ join '', '' (map p_description ps) @ '')'')"

section \<open>Path resolver\<close>

text \<open>
  \<^verbatim>\<open>os.path.split\<close> and \<^verbatim>\<open>os.path.join\<close> of \<^verbatim>\<open>posixpath\<close>: the head is the text
  up to the last slash, without its trailing slashes unless it consists of slashes only.
\<close>

definition os_path_split :: "string \<Rightarrow> string \<times> string" where
  "os_path_split p =
     (let head = rev (dropWhile (\<lambda>c. c \<noteq> CHR ''/'') (rev p));
          tail = rev (takeWhile (\<lambda>c. c \<noteq> CHR ''/'') (rev p))
      in (if head \<noteq> [] \<and> \<not> list_all (\<lambda>c. c = CHR ''/'') head
          then rev (dropWhile (\<lambda>c. c = CHR ''/'') (rev head))
          else head, tail))"

definition os_path_join :: "string \<Rightarrow> string \<Rightarrow> string" where
  "os_path_join a b = (if a = [] \<or> last a = CHR ''/'' then a @ b else a @ ''/'' @ b)"

lemma dropWhile_same_length: "length (dropWhile P xs) = length xs \<Longrightarrow> dropWhile P xs = xs"
proof (cases xs)
  case Nil
  then show ?thesis by simp
next
  case (Cons x ys)
  assume len: "length (dropWhile P xs) = length xs"
  show ?thesis
  proof (cases "P x")
    case True
    have "length (dropWhile P ys) \<le> length ys" by (rule length_dropWhile_le)
    with True Cons len show ?thesis by simp
  next
    case False
    with Cons show ?thesis by simp
  qed
qed

lemma os_path_split_shorter:
  assumes "fst (os_path_split p) \<noteq> p"
  shows "length (fst (os_path_split p)) < length p"
proof -
  define h where "h = rev (dropWhile (\<lambda>c. c \<noteq> CHR ''/'') (rev p))"
  define h' where "h' = rev (dropWhile (\<lambda>c. c = CHR ''/'') (rev h))"
  have le1: "length h \<le> length p"
    unfolding h_def using length_dropWhile_le [of _ "rev p"] by simp
  have le2: "length h' \<le> length h"
    unfolding h'_def using length_dropWhile_le [of _ "rev h"] by simp
  have eq1: "length h = length p \<Longrightarrow> h = p"
    unfolding h_def using dropWhile_same_length [of "\<lambda>c. c \<noteq> CHR ''/''" "rev p"]
    by (metis length_rev rev_rev_ident)
  have eq2: "length h' = length h \<Longrightarrow> h' = h"
    unfolding h'_def using dropWhile_same_length [of "\<lambda>c. c = CHR ''/''" "rev h"]
    by (metis length_rev rev_rev_ident)
  have "fst (os_path_split p) = h \<or> fst (os_path_split p) = h'"
    by (simp add: os_path_split_def h_def h'_def Let_def)
  then show ?thesis
  proof
    assume a: "fst (os_path_split p) = h"
    with assms have "h \<noteq> p" by simp
    with eq1 le1 have "length h < length p" by (cases "length h = length p") auto
    with a show ?thesis by simp
  next
    assume a: "fst (os_path_split p) = h'"
    with assms have ne: "h' \<noteq> p" by simp
    have "length h' < length p"
    proof (cases "length h' = length p")
      case True
      with le1 le2 have "length h' = length h" "length h = length p" by auto
      with eq1 eq2 have "h' = p" by simp
      with ne show ?thesis by simp
    next
      case False
      with le1 le2 show ?thesis by auto
    qed
    with a show ?thesis by simp
  qed
qed

function get_top_level_module :: "(string \<Rightarrow> bool) \<Rightarrow> string \<Rightarrow> string" where
  "get_top_level_module isfile path =
     (if fst (os_path_split path) \<noteq> path
         \<and> isfile (os_path_join (fst (os_path_split path)) ''__init__.py'')
      then get_top_level_module isfile (fst (os_path_split path))
      else path)"
  by pat_completeness auto
termination
  by (relation "measure (\<lambda>(isfile, path). length path)") (auto intro: os_path_split_shorter)

declare get_top_level_module.simps [simp del]

section \<open>Process state and the engine's interface\<close>

text \<open>
  \<^verbatim>\<open>sys.path\<close> and \<^verbatim>\<open>self.default_sys_path\<close> are references to list objects:
  \<open>lists\<close> maps an address to the list stored there, so that an assignment copies the
  reference and \<^verbatim>\<open>insert\<close> changes the object every reference sees. The other
  fields are the attributes \<^verbatim>\<open>_set_request_config\<close> assigns, the two redirected
  streams, and what has been written to the real output and diagnostics streams: an
  element \<open>j\<close> of \<open>stdout_written\<close> is one write of the text \<^verbatim>\<open>json.dumps(j)\<close>
  followed by a newline, an element \<open>e\<close> of \<open>stderr_written\<close> is one write of the
  traceback of \<open>e\<close> followed by a newline.
\<close>

datatype stream = Stdout | Stderr | Devnull

record state =
  lists :: "nat \<Rightarrow> string list"
  sys_path :: nat
  default_sys_path :: nat
  use_snippets :: json
  show_doc_strings :: json
  fuzzy_matcher :: json
  case_insensitive_completion :: json
  extra_paths :: "json list"
  sys_stdout :: stream
  sys_stderr :: stream
  stdout_written :: "json list"
  stderr_written :: "error list"

text \<open>
  The interpreter before \<^verbatim>\<open>JediCompletion()\<close>, with \<^verbatim>\<open>sys.path\<close> holding \<open>base\<close>,
  and \<^verbatim>\<open>__init__\<close>: \<^verbatim>\<open>self.default_sys_path = sys.path\<close> stores the reference.
\<close>

definition interpreter_start :: "string list \<Rightarrow> state" where
  "interpreter_start base =
     \<lparr>lists = (\<lambda>a. [])(0 := base), sys_path = 0, default_sys_path = 1,
      use_snippets = JNull, show_doc_strings = JNull, fuzzy_matcher = JNull,
      case_insensitive_completion = JNull, extra_paths = [],
      sys_stdout = Stdout, sys_stderr = Stderr, stdout_written = [], stderr_written = []\<rparr>"

definition init :: "state \<Rightarrow> state" where
  "init st = st\<lparr>default_sys_path := sys_path st\<rparr>"

text \<open>The value of the expression \<^verbatim>\<open>sys.path\<close>.\<close>

definition sys_path_value :: "state \<Rightarrow> string list" where
  "sys_path_value st = lists st (sys_path st)"

text \<open>
  A \<^verbatim>\<open>jedi.api.Script\<close> with the \<^verbatim>\<open>_pos\<close> the bridge assigns, and the environment
  of the process: the JSON decoder, the file system, and the engine. Every query of
  the engine returns its candidates or raises.
\<close>

record script =
  s_code :: json
  s_path :: json
  s_project_path :: string
  s_added_sys_path :: "json list"
  s_pos :: "int \<times> json"

record env =
  loads :: "string \<Rightarrow> error + json"
  isfile :: "string \<Rightarrow> bool"
  new_script :: "state \<Rightarrow> json \<Rightarrow> json \<Rightarrow> string \<Rightarrow> json list \<Rightarrow> error option"
  script_get_signatures :: "state \<Rightarrow> script \<Rightarrow> error + cand list"
  script_complete :: "state \<Rightarrow> script \<Rightarrow> error + cand list"
  script_completions :: "state \<Rightarrow> script \<Rightarrow> error + cand list"
  script_goto_assignments :: "state \<Rightarrow> script \<Rightarrow> error + cand list"
  script_usages :: "state \<Rightarrow> script \<Rightarrow> error + cand list"
  definition_goto_assignments :: "state \<Rightarrow> cand \<Rightarrow> error + cand list"

text \<open>
  What a serializer returns: \<open>Text j\<close> is the string \<^verbatim>\<open>json.dumps(j)\<close>,
  \<open>EmptyList\<close> the Python list \<^verbatim>\<open>[]\<close>.
\<close>

datatype pyval = Text json | EmptyList

text \<open>\<^verbatim>\<open>try: xs = query() except KeyError: xs = []\<close>\<close>

definition except_KeyError :: "error + cand list \<Rightarrow> error + cand list" where
  "except_KeyError r =
     (case r of Inl e \<Rightarrow> if e = KeyError then Inr [] else Inl e | Inr xs \<Rightarrow> Inr xs)"

section \<open>Query adapter\<close>

type_synonym call_signature = "cand \<times> string \<times> string option"

fun signature_params :: "cand \<Rightarrow> nat \<Rightarrow> param list \<Rightarrow> call_signature list" where
  "signature_params signature pos [] = []"
| "signature_params signature pos (p # ps) =
     (if p_name p = [] then signature_params signature (Suc pos) ps
      else if p_name p = ''self'' \<and> pos = 0 then signature_params signature (Suc pos) ps
      else if \<not> WORD_RE_match (p_name p) then signature_params signature (Suc pos) ps
      else (let description = sub_param (p_description p);
                name = (case py_split CHR ''='' description of
                          [n, v] \<Rightarrow> n | _ \<Rightarrow> description);
                val = (case py_split CHR ''='' description of
                          [n, v] \<Rightarrow> Some v | _ \<Rightarrow> None)
            in if startswith name ''*'' then signature_params signature (Suc pos) ps
               else (signature, name, val) # signature_params signature (Suc pos) ps))"

fun signatures_loop :: "cand list \<Rightarrow> error + call_signature list" where
  "signatures_loop [] = Inr []"
| "signatures_loop (signature # rest) =
     (case c_params signature of
        None \<Rightarrow> Inl AttributeError
      | Some ps \<Rightarrow>
          (case signatures_loop rest of
             Inl e \<Rightarrow> Inl e
           | Inr r \<Rightarrow> Inr (signature_params signature 0 ps @ r)))"

definition get_call_signatures :: "env \<Rightarrow> state \<Rightarrow> script \<Rightarrow> error + call_signature list" where
  "get_call_signatures env st sc =
     (case except_KeyError (script_get_signatures env st sc) of
        Inl e \<Rightarrow> Inl e
      | Inr call_signatures \<Rightarrow> signatures_loop call_signatures)"

text \<open>
  \<^verbatim>\<open>_top_definition\<close>: the first target that is not the candidate itself decides; an
  import is resolved further. Candidates are compared by their attributes. A
  recursion that never returns has the value \<open>None\<close>.
\<close>

partial_function (option) top_definition ::
  "(cand \<Rightarrow> error + cand list) \<Rightarrow> cand \<Rightarrow> (error + cand) option" where
  "top_definition goto definition =
     (case goto definition of
        Inl e \<Rightarrow> Some (Inl e)
      | Inr ds \<Rightarrow>
          (case find (\<lambda>d. d \<noteq> definition) ds of
             None \<Rightarrow> Some (Inr definition)
           | Some d \<Rightarrow>
               if c_type d = ''import'' then top_definition goto d else Some (Inr d)))"

declare top_definition.simps [code]

text \<open>
  \<^verbatim>\<open>if definition.type == 'import': definition = self._top_definition(definition)\<close>.
  CPython ends a recursion without end with a RecursionError.
\<close>

definition resolve_import :: "(cand \<Rightarrow> error + cand list) \<Rightarrow> cand \<Rightarrow> error + cand" where
  "resolve_import goto definition =
     (if c_type definition = ''import''
      then (case top_definition goto definition of
              None \<Rightarrow> Inl RecursionError
            | Some r \<Rightarrow> r)
      else Inr definition)"

section \<open>Response serializers\<close>

definition response :: "json \<Rightarrow> json list \<Rightarrow> pyval" where
  "response identifier results = Text (JObj [(''id'', identifier), (''results'', JArr results)])"

subsection \<open>Completions\<close>

text \<open>
  The entries built so far are kept with their \<^verbatim>\<open>'text'\<close>, which the second loop
  reads back. \<open>prefix_matches\<close> is the test of the first loop's \<^verbatim>\<open>continue\<close>:
  \<^verbatim>\<open>prefix.lower()\<close> is only evaluated when the fuzzy matcher is off, and raises
  unless the prefix is a string.
\<close>

definition prefix_matches :: "state \<Rightarrow> json \<Rightarrow> string \<Rightarrow> error + bool" where
  "prefix_matches st prefix name =
     (if truthy (fuzzy_matcher st) then Inr True
      else (case prefix of
              JStr p \<Rightarrow> Inr (startswith (lower name) (lower p))
            | _ \<Rightarrow> Inl AttributeError))"

definition description_of :: "state \<Rightarrow> cand \<Rightarrow> json" where
  "description_of st c =
     (if truthy (show_doc_strings st) then json_str_opt (c_docstring c)
      else JStr (generate_signature c))"

definition argument_completion :: "state \<Rightarrow> call_signature \<Rightarrow> string \<times> json" where
  "argument_completion st sig =
     (case sig of (signature, name, val) \<Rightarrow>
        (case val of
           Some v \<Rightarrow>
             if v \<noteq> []
             then (name @ ''='' @ v,
                   JObj [(''type'', JStr ''property''),
                         (''rightLabel'', JStr (additional_info signature)),
                         (''snippet'', JStr (name @ ''=${1:'' @ v @ ''}$0'')),
                         (''text'', JStr (name @ ''='' @ v)),
                         (''description'', description_of st signature)])
             else (name,
                   JObj [(''type'', JStr ''property''),
                         (''rightLabel'', JStr (additional_info signature)),
                         (''snippet'', JStr (name @ ''=$1$0'')),
                         (''text'', JStr name),
                         (''displayText'', JStr name),
                         (''description'', description_of st signature)])
         | None \<Rightarrow>
             (name,
              JObj [(''type'', JStr ''property''),
                    (''rightLabel'', JStr (additional_info signature)),
                    (''snippet'', JStr (name @ ''=$1$0'')),
                    (''text'', JStr name),
                    (''displayText'', JStr name),
                    (''description'', description_of st signature)])))"

fun arguments_loop :: "state \<Rightarrow> json \<Rightarrow> call_signature list \<Rightarrow> error + (string \<times> json) list" where
  "arguments_loop st prefix [] = Inr []"
| "arguments_loop st prefix (sig # sigs) =
     (case prefix_matches st prefix (fst (snd sig)) of
        Inl e \<Rightarrow> Inl e
      | Inr ok \<Rightarrow>
          (case arguments_loop st prefix sigs of
             Inl e \<Rightarrow> Inl e
           | Inr rest \<Rightarrow> Inr (if ok then argument_completion st sig # rest else rest)))"

definition name_completion :: "state \<Rightarrow> cand \<Rightarrow> string \<times> json" where
  "name_completion st completion =
     (c_name completion,
      JObj [(''text'', JStr (c_name completion)),
            (''type'', JStr (get_definition_type completion)),
            (''description'', description_of st completion),
            (''rightLabel'', JStr (additional_info completion))])"

text \<open>\<^verbatim>\<open>c['text'].split('=')[0]\<close>; \<^verbatim>\<open>split\<close> never returns an empty list.\<close>

definition split_first :: "string \<Rightarrow> string" where
  "split_first text = (case py_split CHR ''='' text of [] \<Rightarrow> [] | x # _ \<Rightarrow> x)"

fun completions_loop ::
  "state \<Rightarrow> (string \<times> json) list \<Rightarrow> cand list \<Rightarrow> (string \<times> json) list" where
  "completions_loop st completions_so_far [] = completions_so_far"
| "completions_loop st completions_so_far (completion # rest) =
     (if list_ex (\<lambda>c. split_first (fst c) = fst (name_completion st completion)) completions_so_far
      then completions_loop st completions_so_far rest
      else completions_loop st (completions_so_far @ [name_completion st completion]) rest)"

definition serialize_completions ::
  "env \<Rightarrow> state \<Rightarrow> script \<Rightarrow> json \<Rightarrow> json \<Rightarrow> error + pyval" where
  "serialize_completions env st sc identifier prefix =
     (case get_call_signatures env st sc of
        Inl e \<Rightarrow> Inl e
      | Inr sigs \<Rightarrow>
          (case arguments_loop st prefix sigs of
             Inl e \<Rightarrow> Inl e
           | Inr args \<Rightarrow>
               (case except_KeyError (script_complete env st sc) of
                  Inl e \<Rightarrow> Inl e
                | Inr completions \<Rightarrow>
                    Inr (response identifier (map snd (completions_loop st args completions))))))"

subsection \<open>Methods\<close>

definition methods_instance :: "cand list \<Rightarrow> error + string" where
  "methods_instance completions =
     (case find (\<lambda>c. c_name c = ''__autocomplete_python'') completions of
        None \<Rightarrow> Inr ''self.__class__''
      | Some c \<Rightarrow> (case c_parent c of None \<Rightarrow> Inl AttributeError | Some p \<Rightarrow> Inr (fst p)))"

definition method_params :: "cand \<Rightarrow> json list" where
  "method_params completion =
     (case c_params completion of
        None \<Rightarrow> []
      | Some ps \<Rightarrow> map (\<lambda>p. JStr (p_description p))
                     (filter (\<lambda>p. ARGUMENT_RE_match (p_description p)) ps))"

definition method_entry :: "string \<Rightarrow> string \<Rightarrow> cand \<Rightarrow> json" where
  "method_entry parent_name instance completion =
     JObj [(''parent'', JStr parent_name),
           (''instance'', JStr instance),
           (''name'', JStr (c_name completion)),
           (''params'', JArr (method_params completion)),
           (''moduleName'', JStr (c_module_name completion)),
           (''fileName'', json_str_opt (c_module_path completion)),
           (''line'', json_int_opt (c_line completion)),
           (''column'', json_int_opt (c_column completion))]"

fun methods_loop :: "string \<Rightarrow> cand list \<Rightarrow> error + json list" where
  "methods_loop instance [] = Inr []"
| "methods_loop instance (completion # rest) =
     (case c_parent completion of
        None \<Rightarrow> Inl AttributeError
      | Some p \<Rightarrow>
          (case methods_loop instance rest of
             Inl e \<Rightarrow> Inl e
           | Inr ms \<Rightarrow>
               Inr (if snd p = ''class'' then method_entry (fst p) instance completion # ms
                    else ms)))"

definition serialize_methods ::
  "env \<Rightarrow> state \<Rightarrow> script \<Rightarrow> json \<Rightarrow> json \<Rightarrow> error + pyval" where
  "serialize_methods env st sc identifier prefix =
     (case script_completions env st sc of
        Inl e \<Rightarrow> if e = KeyError then Inr EmptyList else Inl e
      | Inr completions \<Rightarrow>
          (case methods_instance completions of
             Inl e \<Rightarrow> Inl e
           | Inr instance \<Rightarrow>
               (case methods_loop instance completions of
                  Inl e \<Rightarrow> Inl e
                | Inr ms \<Rightarrow> Inr (response identifier ms))))"

subsection \<open>Arguments\<close>

fun arguments_snippets ::
  "state \<Rightarrow> nat \<Rightarrow> string list \<Rightarrow> call_signature list \<Rightarrow> string list" where
  "arguments_snippets st i seen [] = []"
| "arguments_snippets st i seen (sig # sigs) =
     (case sig of (signature, name, val) \<Rightarrow>
        (if val = None \<or> val = Some []
         then (if name \<notin> set seen
               then (''${'' @ str_nat i @ '':'' @ name @ ''}'')
                      # arguments_snippets st (Suc i) (name # seen) sigs
               else arguments_snippets st (Suc i) seen sigs)
         else if use_snippets st = JStr ''all''
         then (if name \<notin> set seen
               then (name @ ''=${'' @ str_nat i @ '':'' @ (case val of Some v \<Rightarrow> v | None \<Rightarrow> []) @ ''}'')
                      # arguments_snippets st (Suc i) (name # seen) sigs
               else arguments_snippets st (Suc i) seen sigs)
         else arguments_snippets st i seen sigs))"

definition serialize_arguments :: "env \<Rightarrow> state \<Rightarrow> script \<Rightarrow> json \<Rightarrow> error + pyval" where
  "serialize_arguments env st sc identifier =
     (case get_call_signatures env st sc of
        Inl e \<Rightarrow> Inl e
      | Inr sigs \<Rightarrow>
          Inr (Text (JObj [(''id'', identifier),
                           (''results'', JArr []),
                           (''arguments'', JStr (join '', '' (arguments_snippets st 1 [] sigs) @ ''$0''))])))"

subsection \<open>Definitions, tooltip and usages\<close>

definition definition_entry :: "cand \<Rightarrow> error + json" where
  "definition_entry definition =
     (case c_line definition of
        None \<Rightarrow> Inl TypeError
      | Some n \<Rightarrow>
          Inr (JObj [(''text'', JStr (c_name definition)),
                     (''type'', JStr (get_definition_type definition)),
                     (''fileName'', json_str_opt (c_module_path definition)),
                     (''line'', JInt (n - 1)),
                     (''column'', json_int_opt (c_column definition))]))"

fun definitions_loop :: "(cand \<Rightarrow> error + cand list) \<Rightarrow> cand list \<Rightarrow> error + json list" where
  "definitions_loop goto [] = Inr []"
| "definitions_loop goto (definition # rest) =
     (if has_module_path definition
      then (case resolve_import goto definition of
              Inl e \<Rightarrow> Inl e
            | Inr d \<Rightarrow>
                if \<not> has_module_path d then definitions_loop goto rest
                else (case definition_entry d of
                        Inl e \<Rightarrow> Inl e
                      | Inr entry \<Rightarrow>
                          (case definitions_loop goto rest of
                             Inl e \<Rightarrow> Inl e
                           | Inr entries \<Rightarrow> Inr (entry # entries))))
      else definitions_loop goto rest)"

definition serialize_definitions ::
  "(cand \<Rightarrow> error + cand list) \<Rightarrow> cand list \<Rightarrow> json \<Rightarrow> error + pyval" where
  "serialize_definitions goto definitions identifier =
     (case definitions_loop goto definitions of
        Inl e \<Rightarrow> Inl e
      | Inr entries \<Rightarrow> Inr (response identifier entries))"

definition tooltip_description :: "cand \<Rightarrow> string" where
  "tooltip_description definition =
     (case c_docstring definition of
        None \<Rightarrow> additional_info definition
      | Some doc \<Rightarrow> if strip doc \<noteq> [] then strip doc else additional_info definition)"

definition tooltip_entry :: "cand \<Rightarrow> error + json" where
  "tooltip_entry definition =
     (case c_line definition of
        None \<Rightarrow> Inl TypeError
      | Some n \<Rightarrow>
          Inr (JObj [(''text'', JStr (c_name definition)),
                     (''type'', JStr (get_definition_type definition)),
                     (''fileName'', json_str_opt (c_module_path definition)),
                     (''description'', JStr (tooltip_description definition)),
                     (''line'', JInt (n - 1)),
                     (''column'', json_int_opt (c_column definition))]))"

fun tooltip_loop :: "(cand \<Rightarrow> error + cand list) \<Rightarrow> cand list \<Rightarrow> error + json list" where
  "tooltip_loop goto [] = Inr []"
| "tooltip_loop goto (definition # rest) =
     (if has_module_path definition
      then (case resolve_import goto definition of
              Inl e \<Rightarrow> Inl e
            | Inr d \<Rightarrow>
                if \<not> has_module_path d then tooltip_loop goto rest
                else (case tooltip_entry d of
                        Inl e \<Rightarrow> Inl e
                      | Inr entry \<Rightarrow> Inr [entry]))
      else tooltip_loop goto rest)"

definition serialize_tooltip ::
  "(cand \<Rightarrow> error + cand list) \<Rightarrow> cand list \<Rightarrow> json \<Rightarrow> error + pyval" where
  "serialize_tooltip goto definitions identifier =
     (case tooltip_loop goto definitions of
        Inl e \<Rightarrow> Inl e
      | Inr entries \<Rightarrow> Inr (response identifier entries))"

definition usage_entry :: "cand \<Rightarrow> json" where
  "usage_entry usage =
     JObj [(''name'', JStr (c_name usage)),
           (''moduleName'', JStr (c_module_name usage)),
           (''fileName'', json_str_opt (c_module_path usage)),
           (''line'', json_int_opt (c_line usage)),
           (''column'', json_int_opt (c_column usage))]"

definition serialize_usages :: "cand list \<Rightarrow> json \<Rightarrow> error + pyval" where
  "serialize_usages usages identifier = Inr (response identifier (map usage_entry usages))"

section \<open>Session config, dispatch and the loop\<close>

text \<open>
  \<^verbatim>\<open>_set_request_config\<close>. A config that is no dict has no \<^verbatim>\<open>get\<close>; the first
  statement has run by then. The loop over \<^verbatim>\<open>extraPaths\<close> does not change
  \<^verbatim>\<open>sys.path\<close>, so it keeps the entries that pass its test, in order.
\<close>

fun set_request_config :: "state \<Rightarrow> json \<Rightarrow> error option \<times> state" where
  "set_request_config st (JObj config) =
     (let st1 = st\<lparr>sys_path := default_sys_path st\<rparr>;
          st2 = st1\<lparr>use_snippets := get config ''useSnippets'' JNull,
                    show_doc_strings := get config ''showDescriptions'' (JBool True),
                    fuzzy_matcher := get config ''fuzzyMatcher'' (JBool False),
                    case_insensitive_completion :=
                      get config ''caseInsensitiveCompletion'' (JBool True),
                    extra_paths := []\<rparr>
      in (case py_iter (get config ''extraPaths'' (JArr [])) of
            None \<Rightarrow> (Some TypeError, st2)
          | Some paths \<Rightarrow>
              (None, st2\<lparr>extra_paths :=
                 filter (\<lambda>path. truthy path \<and> \<not> py_in path (sys_path_value st2)) paths\<rparr>)))"
| "set_request_config st config = (Some AttributeError, st\<lparr>sys_path := default_sys_path st\<rparr>)"

text \<open>\<^verbatim>\<open>sys.path.insert(0, path)\<close>: the list object \<^verbatim>\<open>sys.path\<close> refers to changes.\<close>

definition sys_path_insert :: "string \<Rightarrow> state \<Rightarrow> state" where
  "sys_path_insert path st = st\<lparr>lists := (lists st)(sys_path st := path # lists st (sys_path st))\<rparr>"

text \<open>\<^verbatim>\<open>request['line'] + 1\<close>\<close>

fun plus_one :: "json \<Rightarrow> error + int" where
  "plus_one (JInt n) = Inr (n + 1)"
| "plus_one (JBool b) = Inr (if b then 2 else 1)"
| "plus_one _ = Inl TypeError"

definition write_response :: "pyval \<Rightarrow> state \<Rightarrow> error option \<times> state" where
  "write_response text st =
     (case text of
        Text j \<Rightarrow> (None, st\<lparr>sys_stdout := Stdout, stdout_written := stdout_written st @ [j]\<rparr>)
      | EmptyList \<Rightarrow> (Some TypeError, st\<lparr>sys_stdout := Stdout\<rparr>))"

text \<open>
  The \<^verbatim>\<open>if\<close>/\<^verbatim>\<open>elif\<close> chain of \<^verbatim>\<open>_process_request\<close>, with the arguments of
  each call evaluated from left to right.
\<close>

definition dispatch ::
  "env \<Rightarrow> state \<Rightarrow> (string \<times> json) list \<Rightarrow> script \<Rightarrow> json \<Rightarrow> error + pyval" where
  "dispatch env st request sc lookup =
     (if lookup = JStr ''definitions''
      then (case script_goto_assignments env st sc of
              Inl e \<Rightarrow> Inl e
            | Inr ds \<Rightarrow>
                (case item request ''id'' of
                   Inl e \<Rightarrow> Inl e
                 | Inr i \<Rightarrow> serialize_definitions (definition_goto_assignments env st) ds i))
      else if lookup = JStr ''tooltip''
      then (case script_goto_assignments env st sc of
              Inl e \<Rightarrow> Inl e
            | Inr ds \<Rightarrow>
                (case item request ''id'' of
                   Inl e \<Rightarrow> Inl e
                 | Inr i \<Rightarrow> serialize_tooltip (definition_goto_assignments env st) ds i))
      else if lookup = JStr ''arguments''
      then (case item request ''id'' of
              Inl e \<Rightarrow> Inl e
            | Inr i \<Rightarrow> serialize_arguments env st sc i)
      else if lookup = JStr ''usages''
      then (case script_usages env st sc of
              Inl e \<Rightarrow> Inl e
            | Inr us \<Rightarrow>
                (case item request ''id'' of
                   Inl e \<Rightarrow> Inl e
                 | Inr i \<Rightarrow> serialize_usages us i))
      else if lookup = JStr ''methods''
      then (case item request ''id'' of
              Inl e \<Rightarrow> Inl e
            | Inr i \<Rightarrow> serialize_methods env st sc i (get request ''prefix'' (JStr [])))
      else (case item request ''id'' of
              Inl e \<Rightarrow> Inl e
            | Inr i \<Rightarrow> serialize_completions env st sc i (get request ''prefix'' (JStr []))))"

text \<open>
  The part of \<^verbatim>\<open>_process_request\<close> after the config is set, for a request whose
  \<^verbatim>\<open>path\<close> is the string \<open>p\<close> (\<^verbatim>\<open>os.path.split\<close> raises TypeError on
  anything else).
\<close>

definition run_query ::
  "env \<Rightarrow> state \<Rightarrow> (string \<times> json) list \<Rightarrow> string \<Rightarrow> error option \<times> state" where
  "run_query env st1 request p =
     (let path = get_top_level_module (isfile env) p;
          st2 = (if path \<notin> set (sys_path_value st1) then sys_path_insert path st1 else st1);
          lookup = get request ''lookup'' (JStr ''completions'')
      in (case item request ''source'' of
            Inl e \<Rightarrow> (Some e, st2)
          | Inr source \<Rightarrow>
              (case new_script env st2 source (JStr p) path (extra_paths st2) of
                 Some e \<Rightarrow> (Some e, st2)
               | None \<Rightarrow>
                   (case item request ''line'' of
                      Inl e \<Rightarrow> (Some e, st2)
                    | Inr l \<Rightarrow>
                        (case plus_one l of
                           Inl e \<Rightarrow> (Some e, st2)
                         | Inr line \<Rightarrow>
                             (case item request ''column'' of
                                Inl e \<Rightarrow> (Some e, st2)
                              | Inr column \<Rightarrow>
                                  (case dispatch env st2 request
                                          \<lparr>s_code = source, s_path = JStr p,
                                           s_project_path = path,
                                           s_added_sys_path = extra_paths st2,
                                           s_pos = (line, column)\<rparr> lookup of
                                     Inl e \<Rightarrow> (Some e, st2)
                                   | Inr r \<Rightarrow> write_response r st2)))))))"

definition process_request :: "env \<Rightarrow> state \<Rightarrow> string \<Rightarrow> error option \<times> state" where
  "process_request env st line =
     (case loads env line of
        Inl e \<Rightarrow> (Some e, st)
      | Inr decoded \<Rightarrow>
          (case decoded of
             JObj request \<Rightarrow>
               (case set_request_config st (get request ''config'' (JObj [])) of
                  (Some e, st1) \<Rightarrow> (Some e, st1)
                | (None, st1) \<Rightarrow>
                    (case get request ''path'' (JStr []) of
                       JStr p \<Rightarrow> run_query env st1 request p
                     | _ \<Rightarrow> (Some TypeError, st1)))
           | _ \<Rightarrow> (Some AttributeError, st)))"

text \<open>
  \<^verbatim>\<open>watch\<close>. The input is the list of lines \<^verbatim>\<open>readline\<close> returns before the end
  of the input, where it returns the empty string. The handler of
  \<^verbatim>\<open>except Exception\<close> writes the traceback to the diagnostics stream.
\<close>

definition redirect :: "state \<Rightarrow> state" where
  "redirect st = st\<lparr>sys_stdout := Devnull, sys_stderr := Devnull\<rparr>"

definition log_exception :: "error \<Rightarrow> state \<Rightarrow> state" where
  "log_exception e st = st\<lparr>sys_stderr := Stderr, stderr_written := stderr_written st @ [e]\<rparr>"

fun watch :: "env \<Rightarrow> state \<Rightarrow> string list \<Rightarrow> state" where
  "watch env st [] = redirect st"
| "watch env st (request # input) =
     (if request = [] then redirect st
      else (case process_request env (redirect st) request of
              (None, st') \<Rightarrow> watch env st' input
            | (Some e, st') \<Rightarrow> watch env (log_exception e st') input))"

section \<open>Notions used in the statements\<close>

text \<open>The value stored under a key of a serialized entry.\<close>

definition field :: "json \<Rightarrow> string \<Rightarrow> json option" where
  "field j k = (case j of JObj kv \<Rightarrow> map_of kv k | _ \<Rightarrow> None)"



text \<open>
  The kind classification in the order the specification lists its cases: constant
  first, then builtin, then the table.
\<close>

definition kind_as_specified :: "cand \<Rightarrow> string" where
  "kind_as_specified d =
     (if c_type d = ''statement'' \<and> isupper (c_name d) then ''constant''
      else if c_type d \<noteq> ''import'' \<and> c_type d \<noteq> ''keyword'' \<and> c_in_builtin_module d
      then ''builtin''
      else (case map_of basic_types (c_type d) of None \<Rightarrow> c_type d | Some t \<Rightarrow> t))"

text \<open>
  The first candidate of a tooltip request that has a module path and whose resolution
  through the imports has one (or fails, which ends the request).
\<close>

definition first_resolved :: "(cand \<Rightarrow> error + cand list) \<Rightarrow> cand list \<Rightarrow> cand option" where
  "first_resolved goto ds =
     find (\<lambda>d. has_module_path d \<and>
               (case resolve_import goto d of Inl e \<Rightarrow> True | Inr d' \<Rightarrow> has_module_path d')) ds"

text \<open>
  The step of the import chain: the first target of a candidate that is not the
  candidate itself. \<open>import_edges\<close> are the steps \<^verbatim>\<open>_top_definition\<close> recurses on.
\<close>

definition first_other :: "(cand \<Rightarrow> error + cand list) \<Rightarrow> cand \<Rightarrow> cand option" where
  "first_other goto c = (case goto c of Inl e \<Rightarrow> None | Inr ds \<Rightarrow> find (\<lambda>d. d \<noteq> c) ds)"

definition targets :: "(cand \<Rightarrow> error + cand list) \<Rightarrow> (cand \<times> cand) set" where
  "targets goto = {(d, c). first_other goto c = Some d}"

definition import_edges :: "(cand \<Rightarrow> error + cand list) \<Rightarrow> (cand \<times> cand) set" where
  "import_edges goto = {(d, c). first_other goto c = Some d \<and> c_type d = ''import''}"

text \<open>
  What happened to each line the loop read: \<open>None\<close> for a request that was handled,
  the exception for one that raised.
\<close>

fun outcomes :: "env \<Rightarrow> state \<Rightarrow> string list \<Rightarrow> error option list" where
  "outcomes env st [] = []"
| "outcomes env st (request # input) =
     (if request = [] then []
      else (case process_request env (redirect st) request of
              (None, st') \<Rightarrow> None # outcomes env st' input
            | (Some e, st') \<Rightarrow> Some e # outcomes env (log_exception e st') input))"


section \<open>Concrete inputs\<close>

definition start_state :: state where
  "start_state = init (interpreter_start [''/usr/lib/python3''])"

definition default_config_state :: state where
  "default_config_state = snd (set_request_config start_state (JObj []))"

text \<open>
  An environment whose decoder knows the lines of \<open>table\<close>, whose file system has no
  package marker, and whose engine finds nothing.
\<close>

definition quiet_env :: "(string \<times> json) list \<Rightarrow> env" where
  "quiet_env table =
     \<lparr>loads = (\<lambda>l. case map_of table l of None \<Rightarrow> Inl JSONDecodeError | Some j \<Rightarrow> Inr j),
      isfile = (\<lambda>p. False),
      new_script = (\<lambda>st code path project added. None),
      script_get_signatures = (\<lambda>st sc. Inr []),
      script_complete = (\<lambda>st sc. Inr []),
      script_completions = (\<lambda>st sc. Inr []),
      script_goto_assignments = (\<lambda>st sc. Inr []),
      script_usages = (\<lambda>st sc. Inr []),
      definition_goto_assignments = (\<lambda>st d. Inr [])\<rparr>"

definition some_script :: script where
  "some_script =
     \<lparr>s_code = JStr ''f(co'', s_path = JStr [], s_project_path = [],
      s_added_sys_path = [], s_pos = (1, JInt 4)\<rparr>"

definition no_targets :: "cand \<Rightarrow> error + cand list" where
  "no_targets d = Inr []"

definition named :: "string \<Rightarrow> string \<Rightarrow> int \<Rightarrow> cand" where
  "named n t l =
     \<lparr>c_name = n, c_type = t, c_in_builtin_module = False,
      c_module_path = Some ''/p/m.py'', c_module_name = ''m'', c_line = Some l,
      c_column = Some 0, c_docstring = None, c_params = None, c_parent = None,
      c_definition = None\<rparr>"




text \<open>A built-in statement with an uppercase name, as \<^verbatim>\<open>errno.EPERM\<close>.\<close>

definition builtin_constant :: cand where
  "builtin_constant =
     \<lparr>c_name = ''EPERM'', c_type = ''statement'', c_in_builtin_module = True,
      c_module_path = None, c_module_name = ''errno'', c_line = None, c_column = None,
      c_docstring = None, c_params = None, c_parent = None, c_definition = None\<rparr>"

text \<open>Two imports that resolve to each other, and a chain of imports that ends.\<close>

definition cyclic_goto :: "cand \<Rightarrow> error + cand list" where
  "cyclic_goto c =
     (if c = named ''a'' ''import'' 1 then Inr [named ''b'' ''import'' 1]
      else Inr [named ''a'' ''import'' 1])"

definition chain_goto :: "cand \<Rightarrow> error + cand list" where
  "chain_goto c =
     (if c = named ''a'' ''import'' 1 then Inr [named ''a'' ''import'' 1, named ''b'' ''import'' 2]
      else if c = named ''b'' ''import'' 2 then Inr [named ''origin'' ''function'' 9]
      else Inr [])"

text \<open>Two requests of two projects, the first with an extra path.\<close>

definition request_a :: json where
  "request_a =
     JObj [(''id'', JInt 1), (''lookup'', JStr ''completions''), (''source'', JStr []),
           (''path'', JStr ''/proj_a/a.py''), (''line'', JInt 0), (''column'', JInt 0),
           (''config'', JObj [(''extraPaths'', JArr [JStr ''/x''])])]"

definition request_b :: json where
  "request_b =
     JObj [(''id'', JInt 2), (''lookup'', JStr ''completions''), (''source'', JStr []),
           (''path'', JStr ''/proj_b/b.py''), (''line'', JInt 0), (''column'', JInt 0)]"

definition isolation_env :: env where
  "isolation_env = quiet_env [(''request A'', request_a), (''request B'', request_b)]"

text \<open>An engine whose every query fails with a KeyError, and one request per lookup.\<close>

definition lookup_request :: "int \<Rightarrow> string \<Rightarrow> json" where
  "lookup_request i lookup =
     JObj [(''id'', JInt i), (''lookup'', JStr lookup), (''source'', JStr ''x.''),
           (''line'', JInt 0), (''column'', JInt 2)]"

definition keyerror_env :: env where
  "keyerror_env =
     (quiet_env [(''completions request'', lookup_request 1 ''completions''),
                 (''arguments request'', lookup_request 2 ''arguments''),
                 (''methods request'', lookup_request 3 ''methods''),
                 (''definitions request'', lookup_request 4 ''definitions''),
                 (''tooltip request'', lookup_request 5 ''tooltip''),
                 (''usages request'', lookup_request 6 ''usages'')])
       \<lparr>script_get_signatures := (\<lambda>st sc. Inl KeyError),
        script_complete := (\<lambda>st sc. Inl KeyError),
        script_completions := (\<lambda>st sc. Inl KeyError),
        script_goto_assignments := (\<lambda>st sc. Inl KeyError),
        script_usages := (\<lambda>st sc. Inl KeyError)\<rparr>"

text \<open>A request without \<^verbatim>\<open>lookup\<close>, and the same request asking for completions.\<close>

definition bare_request :: "(string \<times> json) list" where
  "bare_request = [(''id'', JInt 7), (''source'', JStr ''im''), (''line'', JInt 0), (''column'', JInt 2)]"

definition bare_env :: env where
  "bare_env =
     quiet_env [(''bare'', JObj bare_request),
                (''explicit'', JObj ((''lookup'', JStr ''completions'') # bare_request))]"

section \<open>Kind classification\<close>

text \<open>
  Claim C8. The kind tag of a candidate is computed in this order: \<open>builtin\<close> when
  the native kind is neither import nor keyword and the engine flags the candidate as
  built-in; otherwise \<open>constant\<close> when the native kind is statement and the name is
  uppercase; otherwise the native kind mapped through the table (module to import,
  instance to variable, statement to value, param to variable); otherwise the native
  kind unchanged. The built-in test comes first, so a built-in statement with an
  uppercase name is a \<open>builtin\<close>, not a \<open>constant\<close>.
\<close>

theorem kind_classification:
  "get_definition_type d =
     (if c_type d \<noteq> ''import'' \<and> c_type d \<noteq> ''keyword'' \<and> c_in_builtin_module d
      then ''builtin''
      else if c_type d = ''statement'' \<and> isupper (c_name d) then ''constant''
      else if c_type d = ''module'' then ''import''
      else if c_type d = ''instance'' then ''variable''
      else if c_type d = ''statement'' then ''value''
      else if c_type d = ''param'' then ''variable''
      else c_type d)"
  by (simp add: get_definition_type_def basic_types_def)

text \<open>
  With the constant test first, as the claim lists the cases, \<^verbatim>\<open>errno.EPERM\<close> would
  be a \<open>constant\<close>; the code answers \<open>builtin\<close>.
\<close>

theorem builtin_constant_counterexample:
  "c_type builtin_constant = ''statement''
   \<and> isupper (c_name builtin_constant)
   \<and> kind_as_specified builtin_constant = ''constant''
   \<and> get_definition_type builtin_constant = ''builtin''"
  by (simp add: builtin_constant_def get_definition_type_def kind_as_specified_def
      isupper_def is_upper_def is_lower_def)

section \<open>Line numbers\<close>





section \<open>Tooltip\<close>

lemma tooltip_loop_first:
  "tooltip_loop goto ds =
     (case first_resolved goto ds of
        None \<Rightarrow> Inr []
      | Some d \<Rightarrow>
          (case resolve_import goto d of
             Inl e \<Rightarrow> Inl e
           | Inr d' \<Rightarrow> (case tooltip_entry d' of Inl e \<Rightarrow> Inl e | Inr entry \<Rightarrow> Inr [entry])))"
  by (induction ds) (auto simp: first_resolved_def split: sum.splits)

text \<open>
  Claim C7. The results of a tooltip request hold at most one entry: none when no
  candidate is fully resolved, and otherwise the entry of the first candidate in input
  order that has a module path and still has one after its imports are resolved (or
  the request fails where that resolution or the entry fails). The entry's description
  is the trimmed doc string, and the right-hand annotation text when the doc string is
  missing or empty after trimming. The description is not tested: the first fully
  resolved candidate is emitted also when its description is empty.
\<close>

theorem tooltip_first_resolved:
  "serialize_tooltip goto ds i =
     (case first_resolved goto ds of
        None \<Rightarrow> Inr (response i [])
      | Some d \<Rightarrow>
          (case resolve_import goto d of
             Inl e \<Rightarrow> Inl e
           | Inr d' \<Rightarrow>
               (case tooltip_entry d' of
                  Inl e \<Rightarrow> Inl e
                | Inr entry \<Rightarrow> Inr (response i [entry]))))
   \<and> (\<forall>entry. tooltip_entry c = Inr entry \<longrightarrow>
         field entry ''description'' = Some (JStr (tooltip_description c)))
   \<and> tooltip_description c =
       (case c_docstring c of
          None \<Rightarrow> additional_info c
        | Some doc \<Rightarrow> if strip doc = [] then additional_info c else strip doc)"
proof (intro conjI allI impI)
  show "serialize_tooltip goto ds i =
     (case first_resolved goto ds of
        None \<Rightarrow> Inr (response i [])
      | Some d \<Rightarrow>
          (case resolve_import goto d of
             Inl e \<Rightarrow> Inl e
           | Inr d' \<Rightarrow>
               (case tooltip_entry d' of
                  Inl e \<Rightarrow> Inl e
                | Inr entry \<Rightarrow> Inr (response i [entry]))))"
    unfolding serialize_tooltip_def tooltip_loop_first
    by (simp split: option.splits sum.splits)
next
  fix entry
  assume "tooltip_entry c = Inr entry"
  then show "field entry ''description'' = Some (JStr (tooltip_description c))"
    by (auto simp: tooltip_entry_def field_def split: option.splits)
next
  show "tooltip_description c =
       (case c_docstring c of
          None \<Rightarrow> additional_info c
        | Some doc \<Rightarrow> if strip doc = [] then additional_info c else strip doc)"
    by (simp add: tooltip_description_def split: option.splits)
qed

theorem tooltip_first_resolved_witness:
  "first_resolved no_targets
      [(named ''hidden'' ''function'' 2)\<lparr>c_module_path := None\<rparr>,
       (named ''f'' ''function'' 5)\<lparr>c_docstring := Some '' Adds. ''\<rparr>,
       named ''g'' ''function'' 8]
     = Some ((named ''f'' ''function'' 5)\<lparr>c_docstring := Some '' Adds. ''\<rparr>)
   \<and> serialize_tooltip no_targets
      [(named ''hidden'' ''function'' 2)\<lparr>c_module_path := None\<rparr>,
       (named ''f'' ''function'' 5)\<lparr>c_docstring := Some '' Adds. ''\<rparr>,
       named ''g'' ''function'' 8] (JInt 1)
     = Inr (Text (JObj [(''id'', JInt 1),
         (''results'', JArr [JObj [(''text'', JStr ''f''), (''type'', JStr ''function''),
            (''fileName'', JStr ''/p/m.py''), (''description'', JStr ''Adds.''),
            (''line'', JInt 4), (''column'', JInt 0)]])]))"
  using tooltip_first_resolved [of no_targets
      "[(named ''hidden'' ''function'' 2)\<lparr>c_module_path := None\<rparr>,
        (named ''f'' ''function'' 5)\<lparr>c_docstring := Some '' Adds. ''\<rparr>,
        named ''g'' ''function'' 8]" "JInt 1" "named ''g'' ''function'' 8"]
  by (simp add: named_def first_resolved_def has_module_path_def resolve_import_def
      tooltip_entry_def tooltip_description_def strip_def is_space_def
      get_definition_type_def basic_types_def json_str_opt_def json_int_opt_def response_def)

text \<open>
  Of two resolved candidates, the first without any description and the second with a
  doc string, the claim has the second emitted; the code emits the first, with the
  empty description.
\<close>

theorem tooltip_empty_description_counterexample:
  "tooltip_description (named ''f'' ''function'' 5) = []
   \<and> tooltip_description ((named ''g'' ''function'' 8)\<lparr>c_docstring := Some ''Adds.''\<rparr>) = ''Adds.''
   \<and> serialize_tooltip no_targets
       [named ''f'' ''function'' 5, (named ''g'' ''function'' 8)\<lparr>c_docstring := Some ''Adds.''\<rparr>]
       (JInt 1)
     = Inr (Text (JObj [(''id'', JInt 1),
         (''results'', JArr [JObj [(''text'', JStr ''f''), (''type'', JStr ''function''),
            (''fileName'', JStr ''/p/m.py''), (''description'', JStr []),
            (''line'', JInt 4), (''column'', JInt 0)]])]))"
  by (simp add: named_def serialize_tooltip_def has_module_path_def resolve_import_def
      tooltip_entry_def tooltip_description_def additional_info_def strip_def is_space_def
      get_definition_type_def basic_types_def json_str_opt_def json_int_opt_def response_def)

section \<open>Empty candidate sequences\<close>

text \<open>
  Claim C2. For every lookup kind and every request id, serializing an empty
  candidate sequence yields the response with the request's id and an empty results
  array; for the arguments lookup the response carries in addition an
  \<^verbatim>\<open>arguments\<close> field, which is the string \<^verbatim>\<open>$0\<close> (the final tab stop with no
  parameter before it), not the empty string.
\<close>

theorem empty_candidates_response:
  "serialize_definitions goto [] i = Inr (response i [])
   \<and> serialize_tooltip goto [] i = Inr (response i [])
   \<and> serialize_usages [] i = Inr (response i [])
   \<and> (script_completions env st sc = Inr [] \<longrightarrow>
        serialize_methods env st sc i prefix = Inr (response i []))
   \<and> (script_get_signatures env st sc = Inr [] \<and> script_complete env st sc = Inr [] \<longrightarrow>
        serialize_completions env st sc i prefix = Inr (response i []))
   \<and> (script_get_signatures env st sc = Inr [] \<longrightarrow>
        serialize_arguments env st sc i
          = Inr (Text (JObj [(''id'', i), (''results'', JArr []), (''arguments'', JStr ''$0'')])))
   \<and> response i [] = Text (JObj [(''id'', i), (''results'', JArr [])])"
  by (simp add: serialize_definitions_def serialize_tooltip_def serialize_usages_def
      serialize_methods_def methods_instance_def serialize_completions_def
      serialize_arguments_def get_call_signatures_def except_KeyError_def response_def)

theorem empty_candidates_response_witness:
  "script_completions (quiet_env []) default_config_state some_script = Inr []
   \<and> script_get_signatures (quiet_env []) default_config_state some_script = Inr []
   \<and> script_complete (quiet_env []) default_config_state some_script = Inr []
   \<and> serialize_methods (quiet_env []) default_config_state some_script (JInt 1) (JStr [])
       = Inr (Text (JObj [(''id'', JInt 1), (''results'', JArr [])]))
   \<and> serialize_completions (quiet_env []) default_config_state some_script (JInt 1) (JStr [])
       = Inr (Text (JObj [(''id'', JInt 1), (''results'', JArr [])]))
   \<and> serialize_arguments (quiet_env []) default_config_state some_script (JInt 1)
       = Inr (Text (JObj [(''id'', JInt 1), (''results'', JArr []), (''arguments'', JStr ''$0'')]))"
  using empty_candidates_response [of no_targets "JInt 1" "quiet_env []" default_config_state
      some_script "JStr []"]
  by (simp add: quiet_env_def)

text \<open>
  With no signature at the cursor the \<^verbatim>\<open>arguments\<close> field is \<^verbatim>\<open>$0\<close>, where the
  claim has the empty string.
\<close>

theorem empty_arguments_counterexample:
  "script_get_signatures (quiet_env []) default_config_state some_script = Inr []
   \<and> serialize_arguments (quiet_env []) default_config_state some_script (JInt 1)
       = Inr (Text (JObj [(''id'', JInt 1), (''results'', JArr []), (''arguments'', JStr ''$0'')]))
   \<and> serialize_arguments (quiet_env []) default_config_state some_script (JInt 1)
       \<noteq> Inr (Text (JObj [(''id'', JInt 1), (''results'', JArr []), (''arguments'', JStr [])]))"
  by (simp add: quiet_env_def serialize_arguments_def get_call_signatures_def
      except_KeyError_def)

section \<open>Deduplication of completions\<close>











section \<open>Import-chain resolution\<close>

lemma top_definition_cycle_is_None:
  "top_definition cyclic_goto (named ''a'' ''import'' 1) = None"
proof -
  have none: "\<not> (g = cyclic_goto \<and> (c = named ''a'' ''import'' 1 \<or> c = named ''b'' ''import'' 1))"
    if h: "top_definition g c = Some y" for g c y
  proof (rule top_definition.raw_induct
      [where P = "\<lambda>g c y. \<not> (g = cyclic_goto
                     \<and> (c = named ''a'' ''import'' 1 \<or> c = named ''b'' ''import'' 1))",
        OF _ h])
    fix td :: "(cand \<Rightarrow> error + cand list) \<Rightarrow> cand \<Rightarrow> (error + cand) option"
    fix goto c y
    assume IH: "\<And>g c y. td g c = Some y \<Longrightarrow>
        \<not> (g = cyclic_goto \<and> (c = named ''a'' ''import'' 1 \<or> c = named ''b'' ''import'' 1))"
    assume eq: "(case goto c of Inl e \<Rightarrow> Some (Inl e)
       | Inr ds \<Rightarrow>
           (case find (\<lambda>d. d \<noteq> c) ds of None \<Rightarrow> Some (Inr c)
            | Some d \<Rightarrow> if c_type d = ''import'' then td goto d else Some (Inr d))) = Some y"
    show "\<not> (goto = cyclic_goto \<and> (c = named ''a'' ''import'' 1 \<or> c = named ''b'' ''import'' 1))"
    proof
      assume a: "goto = cyclic_goto
          \<and> (c = named ''a'' ''import'' 1 \<or> c = named ''b'' ''import'' 1)"
      then have g: "goto = cyclic_goto" by simp
      from a have "c = named ''a'' ''import'' 1 \<or> c = named ''b'' ''import'' 1" by simp
      then show False
      proof
        assume d: "c = named ''a'' ''import'' 1"
        with eq g have "td cyclic_goto (named ''b'' ''import'' 1) = Some y"
          by (simp add: cyclic_goto_def named_def)
        with IH show False by blast
      next
        assume d: "c = named ''b'' ''import'' 1"
        with eq g have "td cyclic_goto (named ''a'' ''import'' 1) = Some y"
          by (simp add: cyclic_goto_def named_def)
        with IH show False by blast
      qed
    qed
  qed
  then have "top_definition cyclic_goto (named ''a'' ''import'' 1) \<noteq> Some y" for y by blast
  then show ?thesis by (cases "top_definition cyclic_goto (named ''a'' ''import'' 1)") auto
qed

text \<open>
  Claim C6. Import-chain resolution returns whenever the steps it recurses on (from a
  candidate to its first target other than itself, when that target is an import) are
  well-founded. A target equal to the candidate itself is skipped, so a self-referential
  import does not loop, and a chain of N nested imports is resolved to its end. The
  result is an error of the engine met on the chain, or the candidate at the end of
  the chain: one that is no import, or an import without a target other than itself.
  Only the candidate being resolved is compared, not the ones seen before it: on a cycle
  through two or more distinct imports the resolution does not return.
\<close>

theorem top_definition_returns:
  assumes "wf (import_edges goto)"
  shows "\<exists>r. top_definition goto c = Some r
           \<and> (\<forall>d. r = Inr d \<longrightarrow> (d, c) \<in> (targets goto)\<^sup>*
                  \<and> (c_type d \<noteq> ''import'' \<or> first_other goto d = None))
           \<and> (\<forall>e. r = Inl e \<longrightarrow> (\<exists>d. (d, c) \<in> (targets goto)\<^sup>* \<and> goto d = Inl e))"
  using assms
proof (induction c rule: wf_induct_rule)
  case (less c)
  show ?case
  proof (cases "goto c")
    case (Inl e)
    then have "top_definition goto c = Some (Inl e)"
      by (subst top_definition.simps) simp
    with Inl show ?thesis by auto
  next
    case (Inr ds)
    show ?thesis
    proof (cases "find (\<lambda>d. d \<noteq> c) ds")
      case None
      with Inr have "top_definition goto c = Some (Inr c)"
        by (subst top_definition.simps) simp
      moreover from None Inr have "first_other goto c = None" by (simp add: first_other_def)
      ultimately show ?thesis by auto
    next
      case (Some d)
      with Inr have fo: "first_other goto c = Some d" by (simp add: first_other_def)
      then have t: "(d, c) \<in> targets goto" by (simp add: targets_def)
      show ?thesis
      proof (cases "c_type d = ''import''")
        case False
        with Inr Some have "top_definition goto c = Some (Inr d)"
          by (subst top_definition.simps) simp
        with False t show ?thesis by auto
      next
        case True
        with Inr Some have eq: "top_definition goto c = top_definition goto d"
          by (subst top_definition.simps) simp
        from True fo have "(d, c) \<in> import_edges goto" by (simp add: import_edges_def)
        from less.IH [OF this] obtain r where
          r: "top_definition goto d = Some r"
          and r1: "\<forall>x. r = Inr x \<longrightarrow> (x, d) \<in> (targets goto)\<^sup>*
                  \<and> (c_type x \<noteq> ''import'' \<or> first_other goto x = None)"
          and r2: "\<forall>e. r = Inl e \<longrightarrow> (\<exists>x. (x, d) \<in> (targets goto)\<^sup>* \<and> goto x = Inl e)"
          by blast
        have step: "(x, d) \<in> (targets goto)\<^sup>* \<Longrightarrow> (x, c) \<in> (targets goto)\<^sup>*" for x
          using t by (meson rtrancl.rtrancl_into_rtrancl)
        from r eq r1 r2 step show ?thesis by metis
      qed
    qed
  qed
qed

lemma chain_goto_wf: "wf (import_edges chain_goto)"
proof -
  have "import_edges chain_goto
      \<subseteq> measure (\<lambda>c. if c = named ''a'' ''import'' 1 then (1::nat) else 0)"
    by (auto simp: import_edges_def first_other_def chain_goto_def named_def
        split: if_splits)
  then show ?thesis by (rule wf_subset [OF wf_measure])
qed

theorem top_definition_returns_witness:
  "wf (import_edges chain_goto)
   \<and> (\<exists>r. top_definition chain_goto (named ''a'' ''import'' 1) = Some r
         \<and> (\<forall>d. r = Inr d \<longrightarrow> (d, named ''a'' ''import'' 1) \<in> (targets chain_goto)\<^sup>*
                \<and> (c_type d \<noteq> ''import'' \<or> first_other chain_goto d = None))
         \<and> (\<forall>e. r = Inl e \<longrightarrow>
               (\<exists>d. (d, named ''a'' ''import'' 1) \<in> (targets chain_goto)\<^sup>*
                  \<and> chain_goto d = Inl e)))
   \<and> top_definition chain_goto (named ''a'' ''import'' 1)
       = Some (Inr (named ''origin'' ''function'' 9))"
proof -
  have v: "top_definition chain_goto (named ''a'' ''import'' 1)
      = Some (Inr (named ''origin'' ''function'' 9))"
    by code_simp
  from top_definition_returns [OF chain_goto_wf, of "named ''a'' ''import'' 1"] chain_goto_wf v
  show ?thesis by blast
qed

text \<open>
  Two imports that resolve to each other: the resolution of either does not return
  (in CPython the recursion ends with a RecursionError, which fails the request).
\<close>

theorem import_cycle_counterexample:
  "cyclic_goto (named ''a'' ''import'' 1) = Inr [named ''b'' ''import'' 1]
   \<and> cyclic_goto (named ''b'' ''import'' 1) = Inr [named ''a'' ''import'' 1]
   \<and> top_definition cyclic_goto (named ''a'' ''import'' 1) = None
   \<and> serialize_definitions cyclic_goto [named ''a'' ''import'' 1] (JInt 1) = Inl RecursionError"
  using top_definition_cycle_is_None
  by (simp add: cyclic_goto_def named_def serialize_definitions_def has_module_path_def
      resolve_import_def)

section \<open>The dispatch loop\<close>

lemma set_request_config_written:
  "set_request_config st c = (r, st') \<Longrightarrow>
     stdout_written st' = stdout_written st \<and> stderr_written st' = stderr_written st"
  by (cases c) (auto simp: Let_def split: option.splits)

lemma sys_path_insert_written:
  "stdout_written (sys_path_insert p st) = stdout_written st"
  "stderr_written (sys_path_insert p st) = stderr_written st"
  by (simp_all add: sys_path_insert_def)

lemma write_response_written:
  "write_response r st = (out, st') \<Longrightarrow>
     stderr_written st' = stderr_written st
     \<and> (out = None \<longrightarrow> (\<exists>j. r = Text j \<and> stdout_written st' = stdout_written st @ [j]))
     \<and> (out \<noteq> None \<longrightarrow> stdout_written st' = stdout_written st)"
  by (cases r) (auto simp: write_response_def)

lemma run_query_written:
  assumes "run_query env st request p = (out, st')"
  shows "stderr_written st' = stderr_written st
     \<and> (out = None \<longrightarrow> (\<exists>j. stdout_written st' = stdout_written st @ [j]))
     \<and> (out \<noteq> None \<longrightarrow> stdout_written st' = stdout_written st)"
proof -
  define st2 where "st2 = (if get_top_level_module (isfile env) p \<notin> set (sys_path_value st)
      then sys_path_insert (get_top_level_module (isfile env) p) st else st)"
  have w: "stdout_written st2 = stdout_written st" "stderr_written st2 = stderr_written st"
    by (simp_all add: st2_def sys_path_insert_written)
  from assms have "(out \<noteq> None \<and> st' = st2) \<or> (\<exists>r. write_response r st2 = (out, st'))"
    unfolding run_query_def Let_def st2_def [symmetric]
    by (auto split: sum.splits option.splits)
  then show ?thesis
  proof
    assume "out \<noteq> None \<and> st' = st2"
    with w show ?thesis by auto
  next
    assume "\<exists>r. write_response r st2 = (out, st')"
    then obtain r where "write_response r st2 = (out, st')" by blast
    from write_response_written [OF this] w show ?thesis
      by auto
  qed
qed

lemma process_request_written:
  assumes "process_request env st line = (out, st')"
  shows "stderr_written st' = stderr_written st
     \<and> (out = None \<longrightarrow> (\<exists>j. stdout_written st' = stdout_written st @ [j]))
     \<and> (out \<noteq> None \<longrightarrow> stdout_written st' = stdout_written st)"
proof (cases "loads env line")
  case (Inl e)
  with assms show ?thesis by (auto simp: process_request_def)
next
  case (Inr decoded)
  show ?thesis
  proof (cases "\<exists>request. decoded = JObj request")
    case False
    with Inr assms show ?thesis
      by (cases decoded) (auto simp: process_request_def)
  next
    case True
    then obtain request where d: "decoded = JObj request" by blast
    obtain r1 st1 where c: "set_request_config st (get request ''config'' (JObj [])) = (r1, st1)"
      by (cases "set_request_config st (get request ''config'' (JObj []))") auto
    from set_request_config_written [OF c]
    have w: "stdout_written st1 = stdout_written st" "stderr_written st1 = stderr_written st"
      by simp_all
    show ?thesis
    proof (cases r1)
      case (Some e)
      with Inr d c assms w show ?thesis by (auto simp: process_request_def)
    next
      case None
      show ?thesis
      proof (cases "\<exists>p. get request ''path'' (JStr []) = JStr p")
        case False
        with Inr d c None assms w show ?thesis
          by (cases "get request ''path'' (JStr [])") (auto simp: process_request_def)
      next
        case True
        then obtain p where p: "get request ''path'' (JStr []) = JStr p" by blast
        with Inr d c None assms have "run_query env st1 request p = (out, st')"
          by (simp add: process_request_def)
        from run_query_written [OF this] w show ?thesis by simp
      qed
    qed
  qed
qed

lemma redirect_written:
  "stdout_written (redirect st) = stdout_written st"
  "stderr_written (redirect st) = stderr_written st"
  by (simp_all add: redirect_def)

lemma watch_outcomes:
  "length (stdout_written (watch env st input))
      = length (stdout_written st) + length (filter (\<lambda>out. out = None) (outcomes env st input))
   \<and> stderr_written (watch env st input)
      = stderr_written st
          @ concat (map (\<lambda>out. case out of None \<Rightarrow> [] | Some e \<Rightarrow> [e]) (outcomes env st input))"
proof (induction input arbitrary: st)
  case Nil
  show ?case by (simp add: redirect_written)
next
  case (Cons request input)
  show ?case
  proof (cases "request = []")
    case True
    then show ?thesis by (simp add: redirect_written)
  next
    case False
    obtain out st' where pr: "process_request env (redirect st) request = (out, st')"
      by (cases "process_request env (redirect st) request") auto
    from process_request_written [OF pr]
    have e: "stderr_written st' = stderr_written st"
      and o: "out = None \<longrightarrow> (\<exists>j. stdout_written st' = stdout_written st @ [j])"
        "out \<noteq> None \<longrightarrow> stdout_written st' = stdout_written st"
      by (simp_all add: redirect_written)
    show ?thesis
    proof (cases out)
      case None
      with o obtain j where j: "stdout_written st' = stdout_written st @ [j]" by auto
      from None pr False have "watch env st (request # input) = watch env st' input"
        "outcomes env st (request # input) = None # outcomes env st' input"
        by simp_all
      with Cons.IH [of st'] j e show ?thesis by simp
    next
      case (Some err)
      with o have s: "stdout_written st' = stdout_written st" by simp
      from Some pr False have
        "watch env st (request # input) = watch env (log_exception err st') input"
        "outcomes env st (request # input) = Some err # outcomes env (log_exception err st') input"
        by simp_all
      with Cons.IH [of "log_exception err st'"] s e show ?thesis
        by (simp add: log_exception_def)
    qed
  qed
qed

lemma outcomes_length: "[] \<notin> set input \<Longrightarrow> length (outcomes env st input) = length input"
  by (induction input arbitrary: st) (auto split: prod.splits option.splits)

lemma malformed_line_raises:
  "loads env line = Inl e \<Longrightarrow> process_request env st line = (Some e, st)"
  by (simp add: process_request_def)

lemma malformed_then_valid:
  assumes "bad \<noteq> []" and "good \<noteq> []" and "loads env bad = Inl e"
    and "process_request env (redirect (log_exception e (redirect st))) good = (None, st')"
  shows "stdout_written (watch env st [bad, good]) = stdout_written st'
     \<and> (\<exists>j. stdout_written st' = stdout_written st @ [j])
     \<and> stderr_written (watch env st [bad, good]) = stderr_written st @ [e]"
proof -
  have b: "process_request env (redirect st) bad = (Some e, redirect st)"
    using assms(3) by (rule malformed_line_raises)
  from process_request_written [OF assms(4)]
  have "\<exists>j. stdout_written st' = stdout_written st @ [j]"
    and "stderr_written st' = stderr_written st @ [e]"
    by (simp_all add: redirect_written log_exception_def redirect_def)
  moreover have "watch env st [bad, good] = redirect st'"
    using assms(1,2,4) b by simp
  ultimately show ?thesis by (simp add: redirect_written)
qed

text \<open>
  Claim C9. The loop handles every line it reads up to the end of the input (or the
  first empty read), whatever the earlier requests did: each line has an outcome. A
  request that is handled writes exactly one response line and a request that raises
  writes none, so the responses written are as many as the requests handled; every
  exception is written to the diagnostics stream and the loop goes on with the next
  line. A line that does not decode raises, and leaves the state as it was. One
  malformed line followed by one valid request yields exactly one response line, the
  valid request's.
\<close>

theorem watch_fault_containment:
  "([] \<notin> set input \<longrightarrow> length (outcomes env st input) = length input)
   \<and> length (stdout_written (watch env st input))
       = length (stdout_written st)
           + length (filter (\<lambda>out. out = None) (outcomes env st input))
   \<and> stderr_written (watch env st input)
       = stderr_written st
           @ concat (map (\<lambda>out. case out of None \<Rightarrow> [] | Some e \<Rightarrow> [e])
                       (outcomes env st input))
   \<and> (\<forall>out st'. process_request env st line = (out, st') \<longrightarrow>
         stderr_written st' = stderr_written st
         \<and> (out = None \<longrightarrow> (\<exists>j. stdout_written st' = stdout_written st @ [j]))
         \<and> (out \<noteq> None \<longrightarrow> stdout_written st' = stdout_written st))
   \<and> (loads env line = Inl e \<longrightarrow> process_request env st line = (Some e, st))
   \<and> (\<forall>st'. bad \<noteq> [] \<and> good \<noteq> [] \<and> loads env bad = Inl e
         \<and> process_request env (redirect (log_exception e (redirect st))) good = (None, st')
         \<longrightarrow> stdout_written (watch env st [bad, good]) = stdout_written st'
           \<and> (\<exists>j. stdout_written st' = stdout_written st @ [j])
           \<and> stderr_written (watch env st [bad, good]) = stderr_written st @ [e])"
proof (intro conjI)
  show "[] \<notin> set input \<longrightarrow> length (outcomes env st input) = length input"
    by (simp add: outcomes_length)
next
  show "length (stdout_written (watch env st input))
       = length (stdout_written st)
           + length (filter (\<lambda>out. out = None) (outcomes env st input))"
    using watch_outcomes [of env st input] by blast
next
  show "stderr_written (watch env st input)
       = stderr_written st
           @ concat (map (\<lambda>out. case out of None \<Rightarrow> [] | Some e \<Rightarrow> [e])
                       (outcomes env st input))"
    using watch_outcomes [of env st input] by blast
next
  show "\<forall>out st'. process_request env st line = (out, st') \<longrightarrow>
         stderr_written st' = stderr_written st
         \<and> (out = None \<longrightarrow> (\<exists>j. stdout_written st' = stdout_written st @ [j]))
         \<and> (out \<noteq> None \<longrightarrow> stdout_written st' = stdout_written st)"
    using process_request_written by blast
next
  show "loads env line = Inl e \<longrightarrow> process_request env st line = (Some e, st)"
    by (simp add: malformed_line_raises)
next
  show "\<forall>st'. bad \<noteq> [] \<and> good \<noteq> [] \<and> loads env bad = Inl e
         \<and> process_request env (redirect (log_exception e (redirect st))) good = (None, st')
         \<longrightarrow> stdout_written (watch env st [bad, good]) = stdout_written st'
           \<and> (\<exists>j. stdout_written st' = stdout_written st @ [j])
           \<and> stderr_written (watch env st [bad, good]) = stderr_written st @ [e]"
    using malformed_then_valid by blast
qed

theorem watch_fault_containment_witness:
  "[] \<notin> set [''not json'', ''bare'']
   \<and> loads bare_env ''not json'' = Inl JSONDecodeError
   \<and> outcomes bare_env start_state [''not json'', ''bare''] = [Some JSONDecodeError, None]
   \<and> length (stdout_written (watch bare_env start_state [''not json'', ''bare''])) = 1
   \<and> stdout_written (watch bare_env start_state [''not json'', ''bare''])
       = [JObj [(''id'', JInt 7), (''results'', JArr [])]]
   \<and> stderr_written (watch bare_env start_state [''not json'', ''bare'']) = [JSONDecodeError]"
proof -
  have o: "outcomes bare_env start_state [''not json'', ''bare''] = [Some JSONDecodeError, None]"
    by code_simp
  have s: "stdout_written start_state = []" "stderr_written start_state = []"
    by code_simp+
  have l: "loads bare_env ''not json'' = Inl JSONDecodeError"
    by code_simp
  have v: "stdout_written (watch bare_env start_state [''not json'', ''bare''])
       = [JObj [(''id'', JInt 7), (''results'', JArr [])]]"
    by code_simp
  from watch_fault_containment [of "[''not json'', ''bare'']" bare_env start_state]
  have "length (stdout_written (watch bare_env start_state [''not json'', ''bare''])) = 1"
    and "stderr_written (watch bare_env start_state [''not json'', ''bare'']) = [JSONDecodeError]"
    unfolding o s by simp_all
  with o l v show ?thesis by simp
qed

section \<open>The default lookup\<close>









section \<open>Isolation of the module-search path\<close>

text \<open>
  Claim C1, at two requests of two projects. \<^verbatim>\<open>__init__\<close> keeps a reference to the
  list \<^verbatim>\<open>sys.path\<close> refers to, not a copy: the package root that request A inserts
  goes into the baseline itself. After request A, applying an empty config leaves A's
  root on the search path, and after request B, which has no config, the search path
  holds the roots of both. The extra paths themselves are rebuilt for every request:
  \<^verbatim>\<open>/x\<close> of request A is not among B's. They are compared with
  \<^verbatim>\<open>sys.path\<close> only, so an entry given twice is kept twice.
\<close>

theorem sys_path_keeps_earlier_roots:
  "sys_path_value start_state = [''/usr/lib/python3'']
   \<and> sys_path_value (watch isolation_env start_state [''request A''])
       = [''/proj_a/a.py'', ''/usr/lib/python3'']
   \<and> extra_paths (watch isolation_env start_state [''request A'']) = [JStr ''/x'']
   \<and> sys_path_value
         (snd (set_request_config (watch isolation_env start_state [''request A'']) (JObj [])))
       = [''/proj_a/a.py'', ''/usr/lib/python3'']
   \<and> sys_path_value (watch isolation_env start_state [''request A'', ''request B''])
       = [''/proj_b/b.py'', ''/proj_a/a.py'', ''/usr/lib/python3'']
   \<and> extra_paths (watch isolation_env start_state [''request A'', ''request B'']) = []
   \<and> extra_paths (snd (set_request_config start_state
         (JObj [(''extraPaths'', JArr [JStr ''/x'', JStr [], JStr ''/x''])])))
       = [JStr ''/x'', JStr ''/x'']"
  by code_simp

section \<open>Failures of the engine\<close>

text \<open>
  Claim C4, at an engine whose every query fails with a KeyError. The completions and
  the arguments lookup take the failure for an empty candidate sequence and answer.
  The methods lookup catches it too, but returns a list where the callers expect the
  serialized text, so writing the response raises a TypeError: nothing is written
  and the TypeError is logged. The definitions, tooltip and usages lookups do not catch
  it: the KeyError reaches the loop, which logs it, and nothing is written.
\<close>

theorem methods_keyerror_unanswered:
  "serialize_methods keyerror_env default_config_state some_script (JInt 3) (JStr []) = Inr EmptyList
   \<and> stdout_written (watch keyerror_env start_state [''methods request'']) = []
   \<and> stderr_written (watch keyerror_env start_state [''methods request'']) = [TypeError]
   \<and> stdout_written (watch keyerror_env start_state
        [''definitions request'', ''tooltip request'', ''usages request'']) = []
   \<and> stderr_written (watch keyerror_env start_state
        [''definitions request'', ''tooltip request'', ''usages request''])
       = [KeyError, KeyError, KeyError]
   \<and> stdout_written (watch keyerror_env start_state
        [''completions request'', ''arguments request''])
       = [JObj [(''id'', JInt 1), (''results'', JArr [])],
          JObj [(''id'', JInt 2), (''results'', JArr []), (''arguments'', JStr ''$0'')]]
   \<and> stderr_written (watch keyerror_env start_state
        [''completions request'', ''arguments request'']) = []"
  by code_simp

end
